theory Spec2Isabelle
  imports Complex_Main
begin

section \<open>Blob delivery: \<open>registry/storage/blobserver.go\<close>\<close>

text \<open>
  The blob server answers one HTTP request for one digest. It owns no state of its own:
  it reads its collaborators (descriptor index, path function, storage driver) and writes
  the header map of the response writer. The model passes the response state explicitly
  and records every call to a collaborator, to the range reader and to the HTTP library
  in a trace, in the order in which the code makes them.
\<close>

subsection \<open>Data\<close>

type_synonym digest = string

text \<open>
  Go errors are interface values; the code only ever distinguishes them by dynamic type:
  \<open>driver.ErrUnsupportedMethod\<close>, \<open>driver.PathNotFoundError\<close> and everything else.
\<close>

datatype error =
    ErrUnsupportedMethod string
  | PathNotFoundError string
  | OtherError string

text \<open>\<open>distribution.Descriptor\<close>: the fields the blob server reads. \<open>Size\<close> is an \<open>int64\<close>
  on which no arithmetic is done.\<close>

record Descriptor =
  Digest :: digest
  Size :: int
  MediaType :: string

text \<open>\<open>header.AcceptSpec\<close>, one element of the list that \<open>header.ParseAccept\<close> returns.\<close>

record AcceptSpec =
  Value :: string
  Q :: rat

text \<open>
  Of the request the code reads the method, the value of
  \<open>r.Header.Get("Docker-Transport-Compression")\<close> and the list
  \<open>header.ParseAccept(r.Header, "Accept-Encoding")\<close>. The parser belongs to an external
  library; its result is a field of the request, in the order in which the parser
  returns it.
\<close>

record Request =
  Method :: string
  TransportCompression :: string
  AcceptEncoding :: "AcceptSpec list"

text \<open>
  The \<open>blobServer\<close> struct. The methods of the \<open>driver\<close> field that the code calls are
  separate fields. \<open>newFileReader\<close> is a function of the package whose file is not part
  of the source at hand; it is a parameter here (\<open>None\<close>: the reader was opened).
\<close>

record blobServer =
  driver_URLFor :: "string \<Rightarrow> string \<Rightarrow> error + string"
  driver_Stat :: "string \<Rightarrow> error + int"
  statter_Stat :: "digest \<Rightarrow> error + Descriptor"
  pathFn :: "digest \<Rightarrow> error + string"
  redirect :: bool
  newFileReader :: "string \<Rightarrow> int \<Rightarrow> error option"

text \<open>Calls that leave the blob server, in the order made.\<close>

datatype event =
    StatterStat digest
  | DriverURLFor string string
  | DriverStat string
  | NewFileReader string int
  | ReaderClose string
  | Redirect string nat
  | ServeContent string bool

text \<open>
  The response writer: its header map (\<open>http.Header\<close>, a map from key to value list) and
  the trace. \<open>http.Redirect\<close> and \<open>http.ServeContent\<close> are calls into the standard library;
  the model records them with their arguments and stops there, so \<open>header\<close> is the map as
  the blob server leaves it. \<open>http.ServeContent\<close> returns nothing: whether the body reached
  the client is a property of the connection (\<open>writable\<close>), recorded with the call and
  invisible to the code after it.
\<close>

record state =
  header :: "string \<rightharpoonup> string list"
  trace :: "event list"
  writable :: bool

definition header_Get :: "(string \<rightharpoonup> string list) \<Rightarrow> string \<Rightarrow> string" where
  "header_Get h k = (case h k of None \<Rightarrow> [] | Some [] \<Rightarrow> [] | Some (v # _) \<Rightarrow> v)"

definition header_Set :: "string \<Rightarrow> string \<Rightarrow> state \<Rightarrow> state" where
  "header_Set k v w = w\<lparr>header := (header w)(k \<mapsto> [v])\<rparr>"

definition emit :: "event \<Rightarrow> state \<Rightarrow> state" where
  "emit e w = w\<lparr>trace := trace w @ [e]\<rparr>"

definition http_ServeContent :: "string \<Rightarrow> state \<Rightarrow> state" where
  "http_ServeContent name w = emit (ServeContent name (writable w)) w"

definition http_Redirect :: "string \<Rightarrow> nat \<Rightarrow> state \<Rightarrow> state" where
  "http_Redirect url code w = emit (Redirect url code) w"

definition StatusTemporaryRedirect :: nat where
  "StatusTemporaryRedirect = 307"

subsection \<open>Formatting\<close>

fun digits :: "nat \<Rightarrow> string" where
  "digits n = (if n < 10 then [''0123456789'' ! n]
               else digits (n div 10) @ [''0123456789'' ! (n mod 10)])"

declare digits.simps [simp del]

text \<open>\<open>fmt.Sprint\<close> of an integer: decimal, with a minus sign.\<close>

definition Sprint :: "int \<Rightarrow> string" where
  "Sprint i = (if i < 0 then CHR ''-'' # digits (nat (- i)) else digits (nat i))"

text \<open>\<open>blobCacheControlMaxAge.Seconds()\<close>: 365 days of 24 hours.\<close>

definition blobCacheControlMaxAge :: nat where
  "blobCacheControlMaxAge = 365 * 24 * 3600"

definition cacheControl :: string where
  "cacheControl = ''max-age='' @ digits blobCacheControlMaxAge"

text \<open>\<open>fmt.Sprintf(`"%s"`, d)\<close>.\<close>

definition quoted :: "string \<Rightarrow> string" where
  "quoted d = [CHR 0x22] @ d @ [CHR 0x22]"

subsection \<open>\<open>path/filepath\<close> with the separator \<open>/\<close>\<close>

text \<open>
  \<open>filepath.Clean\<close> reads the path left to right and writes a buffer \<open>out\<close>; \<open>dotdot\<close> is
  the index in the buffer below which a \<open>..\<close> element must not remove anything.
\<close>

fun backtrack :: "string \<Rightarrow> nat \<Rightarrow> nat \<Rightarrow> nat" where
  "backtrack out dotdot w =
     (if w > dotdot \<and> out ! w \<noteq> CHR ''/'' then backtrack out dotdot (w - 1) else w)"

declare backtrack.simps [simp del]

function clean_loop :: "bool \<Rightarrow> string \<Rightarrow> string \<Rightarrow> nat \<Rightarrow> string" where
  "clean_loop rooted [] out dotdot = out"
| "clean_loop rooted (c # cs) out dotdot =
     (if c = CHR ''/'' then clean_loop rooted cs out dotdot
      else if c = CHR ''.'' \<and> (cs = [] \<or> hd cs = CHR ''/'') then
        clean_loop rooted cs out dotdot
      else if c = CHR ''.'' \<and> hd cs = CHR ''.'' \<and> (tl cs = [] \<or> hd (tl cs) = CHR ''/'') then
        (if length out > dotdot then
           clean_loop rooted (tl cs) (take (backtrack out dotdot (length out - 1)) out) dotdot
         else if \<not> rooted then
           clean_loop rooted (tl cs) ((if length out > 0 then out @ ''/'' else out) @ ''..'')
             (length ((if length out > 0 then out @ ''/'' else out) @ ''..''))
         else clean_loop rooted (tl cs) out dotdot)
      else
        clean_loop rooted (dropWhile (\<lambda>x. x \<noteq> CHR ''/'') cs)
          ((if rooted \<and> length out \<noteq> 1 \<or> \<not> rooted \<and> length out \<noteq> 0 then out @ ''/'' else out)
             @ c # takeWhile (\<lambda>x. x \<noteq> CHR ''/'') cs)
          dotdot)"
  by pat_completeness auto
termination
proof (relation "measure (\<lambda>(rooted, s, out, dotdot). length s)")
  show "wf (measure (\<lambda>(rooted, s, out, dotdot). length s))" by simp
next
  fix rooted :: bool and c :: char and cs out :: string and dotdot :: nat
  show "((rooted, dropWhile (\<lambda>x. x \<noteq> CHR ''/'') cs,
           (if rooted \<and> length out \<noteq> 1 \<or> \<not> rooted \<and> length out \<noteq> 0 then out @ ''/'' else out)
             @ c # takeWhile (\<lambda>x. x \<noteq> CHR ''/'') cs, dotdot),
          (rooted, c # cs, out, dotdot))
        \<in> measure (\<lambda>(rooted, s, out, dotdot). length s)"
    using length_dropWhile_le [of "\<lambda>x. x \<noteq> CHR ''/''" cs] by simp
qed (auto simp: less_Suc_eq_le)

declare clean_loop.simps [simp del]

definition Clean :: "string \<Rightarrow> string" where
  "Clean path =
     (if path = [] then ''.''
      else let rooted = (hd path = CHR ''/'');
               out = (if rooted then clean_loop True (tl path) ''/'' 1
                      else clean_loop False path [] 0)
           in if out = [] then ''.'' else out)"

text \<open>\<open>filepath.Dir\<close>: everything up to and including the last separator, cleaned.\<close>

definition Dir :: "string \<Rightarrow> string" where
  "Dir path = Clean (rev (dropWhile (\<lambda>x. x \<noteq> CHR ''/'') (rev path)))"

fun strings_Join :: "string list \<Rightarrow> string \<Rightarrow> string" where
  "strings_Join [] sep = []"
| "strings_Join [e] sep = e"
| "strings_Join (e # es) sep = e @ sep @ strings_Join es sep"

text \<open>\<open>filepath.Join\<close>: leading empty elements are dropped, the rest joined and cleaned.\<close>

fun Join :: "string list \<Rightarrow> string" where
  "Join [] = []"
| "Join (e # es) = (if e \<noteq> [] then Clean (strings_Join (e # es) ''/'') else Join es)"

subsection \<open>\<open>ServeBlobContent\<close>\<close>

text \<open>
  The loop over the accepted encodings. \<open>path\<close> is the loop-carried variable of the
  source, reassigned at the top of each iteration. The deferred \<open>br.Close()\<close> runs when the
  function returns, which is right after \<open>http.ServeContent\<close>.
\<close>

fun ServeBlobContent_loop ::
  "blobServer \<Rightarrow> digest \<Rightarrow> string \<Rightarrow> AcceptSpec list \<Rightarrow> state \<Rightarrow> state \<times> bool \<times> error option"
where
  "ServeBlobContent_loop bs dgst path [] w = (w, False, None)"
| "ServeBlobContent_loop bs dgst path (enc # accepted) w =
     (let path' = Join [Dir path, ''data.'' @ Value enc];
          w1 = emit (DriverStat path') w
      in case driver_Stat bs path' of
           Inl err \<Rightarrow>
             (case err of
                PathNotFoundError p \<Rightarrow> ServeBlobContent_loop bs dgst path' accepted w1
              | _ \<Rightarrow> (w1, False, Some err))
         | Inr sz \<Rightarrow>
             (let w2 = emit (NewFileReader path' sz) w1
              in case newFileReader bs path' sz of
                   Some err \<Rightarrow> (w2, False, Some err)
                 | None \<Rightarrow>
                     (let w3 = header_Set ''ETag'' dgst w2;
                          w4 = header_Set ''Cache-Control'' cacheControl w3;
                          w5 = header_Set ''Content-Type'' ''application/octet-stream'' w4;
                          w6 = header_Set ''Content-Length'' (Sprint sz) w5;
                          w7 = header_Set ''Content-Encoding'' (Value enc) w6;
                          w8 = http_ServeContent dgst w7
                      in (emit (ReaderClose path') w8, True, None))))"

definition ServeBlobContent ::
  "blobServer \<Rightarrow> Request \<Rightarrow> digest \<Rightarrow> state \<Rightarrow> state \<times> bool \<times> error option"
where
  "ServeBlobContent bs r dgst w =
     (case pathFn bs dgst of
        Inl err \<Rightarrow> (w, False, Some err)
      | Inr path \<Rightarrow> ServeBlobContent_loop bs dgst path (AcceptEncoding r) w)"

subsection \<open>\<open>ServeBlob\<close>\<close>

text \<open>Lines 62 to 86: open the reader, set the headers, hand over to \<open>http.ServeContent\<close>.\<close>

definition setIfEmpty :: "string \<Rightarrow> string \<Rightarrow> state \<Rightarrow> state" where
  "setIfEmpty k v w = (if header_Get (header w) k = [] then header_Set k v w else w)"

definition streamBlob :: "blobServer \<Rightarrow> Descriptor \<Rightarrow> string \<Rightarrow> state \<Rightarrow> state \<times> error option" where
  "streamBlob bs desc path w =
     (let w1 = emit (NewFileReader path (Size desc)) w
      in case newFileReader bs path (Size desc) of
           Some err \<Rightarrow> (w1, Some err)
         | None \<Rightarrow>
             (let w2 = header_Set ''ETag'' (quoted (Digest desc)) w1;
                  w3 = header_Set ''Cache-Control'' cacheControl w2;
                  w4 = setIfEmpty ''Docker-Content-Digest'' (Digest desc) w3;
                  w5 = setIfEmpty ''Content-Type'' (MediaType desc) w4;
                  w6 = setIfEmpty ''Content-Length'' (Sprint (Size desc)) w5;
                  w7 = http_ServeContent (Digest desc) w6
              in (emit (ReaderClose path) w7, None)))"

text \<open>Lines 36 to 60: descriptor lookup, path resolution, the redirect switch.\<close>

definition lookupAndDeliver ::
  "blobServer \<Rightarrow> Request \<Rightarrow> digest \<Rightarrow> state \<Rightarrow> state \<times> error option"
where
  "lookupAndDeliver bs r dgst w =
     (let w1 = emit (StatterStat dgst) w
      in case statter_Stat bs dgst of
           Inl err \<Rightarrow> (w1, Some err)
         | Inr desc \<Rightarrow>
             (case pathFn bs (Digest desc) of
                Inl err \<Rightarrow> (w1, Some err)
              | Inr path \<Rightarrow>
                  if redirect bs then
                    (let w2 = emit (DriverURLFor path (Method r)) w1
                     in case driver_URLFor bs path (Method r) of
                          Inr redirectURL \<Rightarrow>
                            (http_Redirect redirectURL StatusTemporaryRedirect w2, None)
                        | Inl err \<Rightarrow>
                            (case err of
                               ErrUnsupportedMethod d \<Rightarrow> streamBlob bs desc path w2
                             | _ \<Rightarrow> (w2, Some err)))
                  else streamBlob bs desc path w1))"

definition ServeBlob :: "blobServer \<Rightarrow> Request \<Rightarrow> digest \<Rightarrow> state \<Rightarrow> state \<times> error option" where
  "ServeBlob bs r dgst w =
     (if TransportCompression r = ''enabled'' then
        (case ServeBlobContent bs r dgst w of
           (w', found, err) \<Rightarrow>
             if found \<or> err \<noteq> None then (w', err) else lookupAndDeliver bs r dgst w')
      else lookupAndDeliver bs r dgst w)"

subsection \<open>Vocabulary for the statements\<close>

text \<open>The path that one iteration of the loop stats, from the value of \<open>path\<close> it starts with
  (line 97), and the list of paths stat'ed when the loop runs through a list of encodings.\<close>

definition candidate :: "string \<Rightarrow> AcceptSpec \<Rightarrow> string" where
  "candidate path enc = Join [Dir path, ''data.'' @ Value enc]"

fun candidates :: "string \<Rightarrow> AcceptSpec list \<Rightarrow> string list" where
  "candidates path [] = []"
| "candidates path (enc # accepted) =
     candidate path enc # candidates (candidate path enc) accepted"

definition notFound :: "blobServer \<Rightarrow> string \<Rightarrow> bool" where
  "notFound bs c = (case driver_Stat bs c of Inl (PathNotFoundError p) \<Rightarrow> True | _ \<Rightarrow> False)"

definition emits :: "event list \<Rightarrow> state \<Rightarrow> state" where
  "emits evs w = w\<lparr>trace := trace w @ evs\<rparr>"

text \<open>The events a call added to the trace, and the identity strings among them that were
  handed to \<open>http.ServeContent\<close>.\<close>

definition newEvents :: "state \<Rightarrow> state \<Rightarrow> event list" where
  "newEvents w w' = drop (length (trace w)) (trace w')"

fun servedNames :: "event list \<Rightarrow> string list" where
  "servedNames [] = []"
| "servedNames (ServeContent name ok # es) = name # servedNames es"
| "servedNames (e # es) = servedNames es"

text \<open>The header writes of the two serving paths (lines 114 to 118, and 68 to 83).\<close>

definition variantHeaders :: "digest \<Rightarrow> int \<Rightarrow> AcceptSpec \<Rightarrow> state \<Rightarrow> state" where
  "variantHeaders dgst sz enc w =
     header_Set ''Content-Encoding'' (Value enc)
       (header_Set ''Content-Length'' (Sprint sz)
         (header_Set ''Content-Type'' ''application/octet-stream''
           (header_Set ''Cache-Control'' cacheControl
             (header_Set ''ETag'' dgst w))))"

definition canonicalHeaders :: "Descriptor \<Rightarrow> state \<Rightarrow> state" where
  "canonicalHeaders desc w =
     setIfEmpty ''Content-Length'' (Sprint (Size desc))
       (setIfEmpty ''Content-Type'' (MediaType desc)
         (setIfEmpty ''Docker-Content-Digest'' (Digest desc)
           (header_Set ''Cache-Control'' cacheControl
             (header_Set ''ETag'' (quoted (Digest desc)) w))))"

text \<open>
  The ways through \<open>ServeBlob\<close>. A request is \<open>negotiated\<close> when the opt-in header is present
  and \<open>ServeBlobContent\<close> reports a match. Negotiation \<open>declines\<close> when it does not run or
  returns \<open>(false, nil)\<close>; \<open>ServeBlob\<close> then goes on from the state negotiation left. It
  \<open>streamsCanonical\<close> when, after that, descriptor and path resolve, the redirect is
  disabled or unsupported, and the reader opens.
\<close>

definition negotiated :: "blobServer \<Rightarrow> Request \<Rightarrow> digest \<Rightarrow> state \<Rightarrow> bool" where
  "negotiated bs r dgst w =
     (TransportCompression r = ''enabled'' \<and> fst (snd (ServeBlobContent bs r dgst w)))"

definition negotiationDeclines :: "blobServer \<Rightarrow> Request \<Rightarrow> digest \<Rightarrow> state \<Rightarrow> bool" where
  "negotiationDeclines bs r dgst w =
     (TransportCompression r = ''enabled'' \<longrightarrow> snd (ServeBlobContent bs r dgst w) = (False, None))"

definition afterNegotiation :: "blobServer \<Rightarrow> Request \<Rightarrow> digest \<Rightarrow> state \<Rightarrow> state" where
  "afterNegotiation bs r dgst w =
     (if TransportCompression r = ''enabled'' then fst (ServeBlobContent bs r dgst w) else w)"

definition streamsCanonical ::
  "blobServer \<Rightarrow> Request \<Rightarrow> digest \<Rightarrow> state \<Rightarrow> Descriptor \<Rightarrow> string \<Rightarrow> bool"
where
  "streamsCanonical bs r dgst w desc path =
     (negotiationDeclines bs r dgst w \<and> statter_Stat bs dgst = Inr desc \<and>
      pathFn bs (Digest desc) = Inr path \<and>
      (redirect bs \<longrightarrow> (\<exists>d. driver_URLFor bs path (Method r) = Inl (ErrUnsupportedMethod d))) \<and>
      newFileReader bs path (Size desc) = None)"

text \<open>
  The selection rule in the words of the specification: the accepted encodings are ordered
  by descending preference weight, ties keeping their original order, and the first one
  in that order whose sibling exists is chosen. \<open>sort_key\<close> is a stable insertion sort.
\<close>

definition by_preference :: "AcceptSpec list \<Rightarrow> AcceptSpec list" where
  "by_preference accepted = sort_key (\<lambda>enc. - Q enc) accepted"

definition spec_selected :: "blobServer \<Rightarrow> string \<Rightarrow> AcceptSpec list \<Rightarrow> AcceptSpec option" where
  "spec_selected bs path accepted =
     find (\<lambda>enc. case driver_Stat bs (Join [Dir path, ''data.'' @ Value enc]) of
                   Inr sz \<Rightarrow> True | Inl err \<Rightarrow> False)
       (by_preference accepted)"

subsection \<open>A small registry to run the functions on\<close>

text \<open>
  One blob, \<open>sha256:aa\<close>, of five bytes, also reachable as \<open>sha512:bb\<close>; compressed siblings
  \<open>data.gzip\<close> and \<open>data.zstd\<close> next to it; a driver without URL support.
\<close>

definition ex_pathFn :: "digest \<Rightarrow> error + string" where
  "ex_pathFn d =
     (let alg = takeWhile (\<lambda>c. c \<noteq> CHR '':'') d; hex = drop (Suc (length alg)) d
      in if (alg = ''sha256'' \<or> alg = ''sha512'') \<and> hex \<noteq> []
         then Inr (''/blobs/'' @ alg @ ''/'' @ hex @ ''/data'')
         else Inl (OtherError ''invalid digest''))"

definition ex_desc :: Descriptor where
  "ex_desc = \<lparr>Digest = ''sha256:aa'', Size = 5, MediaType = ''application/octet-stream''\<rparr>"

definition ex_statter :: "digest \<Rightarrow> error + Descriptor" where
  "ex_statter d = (if d = ''sha256:aa'' \<or> d = ''sha512:bb'' then Inr ex_desc
                   else Inl (OtherError ''blob unknown''))"

definition ex_driver_Stat :: "string \<Rightarrow> error + int" where
  "ex_driver_Stat p =
     (if p = ''/blobs/sha256/aa/data.gzip'' then Inr 3
      else if p = ''/blobs/sha256/aa/data.zstd'' then Inr 4
      else if p = ''/blobs/sha512/bb/data.gzip'' then Inr 3
      else if p = ''/blobs/sha256/aa/data.lz4'' then Inl (OtherError ''i/o timeout'')
      else Inl (PathNotFoundError p))"

definition ex_bs :: blobServer where
  "ex_bs = \<lparr>driver_URLFor = (\<lambda>p m. Inl (ErrUnsupportedMethod ''inmemory'')),
            driver_Stat = ex_driver_Stat,
            statter_Stat = ex_statter,
            pathFn = ex_pathFn,
            redirect = False,
            newFileReader = (\<lambda>p n. None)\<rparr>"

definition ex_bs_unsupported :: blobServer where
  "ex_bs_unsupported = ex_bs\<lparr>redirect := True\<rparr>"

definition ex_bs_redirecting :: blobServer where
  "ex_bs_redirecting =
     ex_bs\<lparr>redirect := True, driver_URLFor := (\<lambda>p m. Inr (''https://cdn.example'' @ p))\<rparr>"

definition ex_bs_failing :: blobServer where
  "ex_bs_failing =
     ex_bs\<lparr>redirect := True, driver_URLFor := (\<lambda>p m. Inl (OtherError ''i/o timeout''))\<rparr>"

definition ex_w :: state where
  "ex_w = \<lparr>header = Map.empty, trace = [], writable = True\<rparr>"

definition ex_w_preset :: state where
  "ex_w_preset = \<lparr>header = [''Content-Type'' \<mapsto> [''text/plain''],
                              ''Content-Length'' \<mapsto> [''999''],
                              ''Docker-Content-Digest'' \<mapsto> [''sha256:outer'']],
                  trace = [], writable = True\<rparr>"

definition ex_r :: Request where
  "ex_r = \<lparr>Method = ''GET'', TransportCompression = [], AcceptEncoding = []\<rparr>"

definition ex_enc :: "string \<Rightarrow> rat \<Rightarrow> AcceptSpec" where
  "ex_enc v q = \<lparr>Value = v, Q = q\<rparr>"

definition ex_r_enc :: "AcceptSpec list \<Rightarrow> Request" where
  "ex_r_enc accepted =
     \<lparr>Method = ''GET'', TransportCompression = ''enabled'', AcceptEncoding = accepted\<rparr>"

section \<open>Basic facts\<close>

subsection \<open>Header map and trace\<close>

lemma header_emit [simp]: "header (emit e w) = header w"
  and trace_emit [simp]: "trace (emit e w) = trace w @ [e]"
  and writable_emit [simp]: "writable (emit e w) = writable w"
  by (simp_all add: emit_def)

lemma header_header_Set [simp]: "header (header_Set k v w) = (header w)(k \<mapsto> [v])"
  and trace_header_Set [simp]: "trace (header_Set k v w) = trace w"
  and writable_header_Set [simp]: "writable (header_Set k v w) = writable w"
  by (simp_all add: header_Set_def)

lemma header_Get_upd [simp]: "header_Get (h(k \<mapsto> [v])) k' = (if k' = k then v else header_Get h k')"
  by (simp add: header_Get_def)

lemma trace_setIfEmpty [simp]: "trace (setIfEmpty k v w) = trace w"
  and writable_setIfEmpty [simp]: "writable (setIfEmpty k v w) = writable w"
  by (simp_all add: setIfEmpty_def)

lemma header_setIfEmpty:
  "header (setIfEmpty k v w) = (if header_Get (header w) k = [] then (header w)(k \<mapsto> [v]) else header w)"
  by (simp add: setIfEmpty_def)

lemma header_emits [simp]: "header (emits evs w) = header w"
  and trace_emits [simp]: "trace (emits evs w) = trace w @ evs"
  and writable_emits [simp]: "writable (emits evs w) = writable w"
  by (simp_all add: emits_def)

lemma emits_Nil [simp]: "emits [] w = w"
  by (simp add: emits_def)

lemma emits_emits [simp]: "emits bs (emits as w) = emits (as @ bs) w"
  by (simp add: emits_def)

lemma emit_emits [simp]: "emit e (emits as w) = emits (as @ [e]) w"
  by (simp add: emits_def emit_def)

lemma emit_eq_emits: "emit e w = emits [e] w"
  by (simp add: emits_def emit_def)

lemma trace_canonicalHeaders [simp]: "trace (canonicalHeaders desc w) = trace w"
  and writable_canonicalHeaders [simp]: "writable (canonicalHeaders desc w) = writable w"
  by (simp_all add: canonicalHeaders_def)

lemma trace_variantHeaders [simp]: "trace (variantHeaders dgst sz enc w) = trace w"
  and writable_variantHeaders [simp]: "writable (variantHeaders dgst sz enc w) = writable w"
  by (simp_all add: variantHeaders_def)

lemma setIfEmpty_emits: "setIfEmpty k v (emits evs w) = emits evs (setIfEmpty k v w)"
  by (simp add: setIfEmpty_def emits_def header_Set_def)

lemma header_Set_emits: "header_Set k v (emits evs w) = emits evs (header_Set k v w)"
  by (simp add: emits_def header_Set_def)

lemma canonicalHeaders_emits: "canonicalHeaders desc (emits evs w) = emits evs (canonicalHeaders desc w)"
  by (simp add: canonicalHeaders_def setIfEmpty_emits header_Set_emits)

subsection \<open>The negotiation loop\<close>

lemma notFound_iff: "notFound bs c \<longleftrightarrow> (\<exists>p. driver_Stat bs c = Inl (PathNotFoundError p))"
  by (auto simp: notFound_def split: sum.splits error.splits)

lemma candidates_append:
  "candidates path (pre @ post) =
     candidates path pre @ candidates (last (path # candidates path pre)) post"
  by (induction pre arbitrary: path) simp_all

lemma length_candidates [simp]: "length (candidates path accepted) = length accepted"
  by (induction accepted arbitrary: path) simp_all

lemma loop_step_not_found:
  assumes "driver_Stat bs (candidate path enc) = Inl (PathNotFoundError p)"
  shows "ServeBlobContent_loop bs dgst path (enc # accepted) w =
           ServeBlobContent_loop bs dgst (candidate path enc) accepted
             (emit (DriverStat (candidate path enc)) w)"
  using assms by (simp add: candidate_def Let_def)

lemma loop_step_error:
  assumes "driver_Stat bs (candidate path enc) = Inl err" "\<forall>p. err \<noteq> PathNotFoundError p"
  shows "ServeBlobContent_loop bs dgst path (enc # accepted) w =
           (emit (DriverStat (candidate path enc)) w, False, Some err)"
  using assms by (cases err) (simp_all add: candidate_def Let_def)

lemma loop_step_reader_error:
  assumes "driver_Stat bs (candidate path enc) = Inr sz"
    "newFileReader bs (candidate path enc) sz = Some err"
  shows "ServeBlobContent_loop bs dgst path (enc # accepted) w =
           (emits [DriverStat (candidate path enc), NewFileReader (candidate path enc) sz] w,
            False, Some err)"
  using assms by (simp add: candidate_def Let_def emit_eq_emits)

lemma loop_step_found:
  assumes "driver_Stat bs (candidate path enc) = Inr sz"
    "newFileReader bs (candidate path enc) sz = None"
  shows "ServeBlobContent_loop bs dgst path (enc # accepted) w =
           (emits [DriverStat (candidate path enc), NewFileReader (candidate path enc) sz,
                   ServeContent dgst (writable w), ReaderClose (candidate path enc)]
              (header_Set ''Content-Encoding'' (Value enc)
                (header_Set ''Content-Length'' (Sprint sz)
                  (header_Set ''Content-Type'' ''application/octet-stream''
                    (header_Set ''Cache-Control'' cacheControl
                      (header_Set ''ETag'' dgst w))))),
            True, None)"
  using assms
  by (simp add: candidate_def Let_def http_ServeContent_def emit_def emits_def header_Set_def)

lemma loop_skip:
  assumes "\<forall>c \<in> set (candidates path pre). \<exists>p. driver_Stat bs c = Inl (PathNotFoundError p)"
  shows "ServeBlobContent_loop bs dgst path (pre @ rest) w =
           ServeBlobContent_loop bs dgst (last (path # candidates path pre)) rest
             (emits (map DriverStat (candidates path pre)) w)"
  using assms
proof (induction pre arbitrary: path w)
  case Nil
  then show ?case by simp
next
  case (Cons enc pre)
  from Cons.prems obtain p where nf: "driver_Stat bs (candidate path enc) = Inl (PathNotFoundError p)"
    by auto
  from Cons.prems
  have rest: "\<forall>c \<in> set (candidates (candidate path enc) pre). \<exists>p. driver_Stat bs c = Inl (PathNotFoundError p)"
    by simp
  have "ServeBlobContent_loop bs dgst path ((enc # pre) @ rest) w =
          ServeBlobContent_loop bs dgst (candidate path enc) (pre @ rest)
            (emit (DriverStat (candidate path enc)) w)"
    using loop_step_not_found [OF nf] by simp
  also have "\<dots> = ServeBlobContent_loop bs dgst
                      (last (candidate path enc # candidates (candidate path enc) pre)) rest
                      (emits (map DriverStat (candidates (candidate path enc) pre))
                         (emit (DriverStat (candidate path enc)) w))"
    by (rule Cons.IH [OF rest])
  finally show ?case by (simp add: emit_eq_emits)
qed

lemma first_hit:
  "(\<forall>c \<in> set (candidates path accepted). notFound bs c) \<or>
   (\<exists>pre enc post. accepted = pre @ enc # post \<and>
      (\<forall>c \<in> set (candidates path pre). notFound bs c) \<and>
      \<not> notFound bs (candidate (last (path # candidates path pre)) enc))"
proof (induction accepted arbitrary: path)
  case Nil
  then show ?case by simp
next
  case (Cons enc accepted)
  show ?case
  proof (cases "notFound bs (candidate path enc)")
    case False
    then have "enc # accepted = [] @ enc # accepted \<and>
        (\<forall>c \<in> set (candidates path []). notFound bs c) \<and>
        \<not> notFound bs (candidate (last (path # candidates path [])) enc)"
      by simp
    then show ?thesis by blast
  next
    case True
    from Cons.IH [of "candidate path enc"] show ?thesis
    proof
      assume "\<forall>c \<in> set (candidates (candidate path enc) accepted). notFound bs c"
      with True show ?thesis by simp
    next
      assume "\<exists>pre e post. accepted = pre @ e # post \<and>
        (\<forall>c \<in> set (candidates (candidate path enc) pre). notFound bs c) \<and>
        \<not> notFound bs (candidate (last (candidate path enc # candidates (candidate path enc) pre)) e)"
      then obtain pre e post where s: "accepted = pre @ e # post"
        and nf: "\<forall>c \<in> set (candidates (candidate path enc) pre). notFound bs c"
        and hit: "\<not> notFound bs (candidate (last (candidate path enc # candidates (candidate path enc) pre)) e)"
        by blast
      have "enc # accepted = (enc # pre) @ e # post \<and>
        (\<forall>c \<in> set (candidates path (enc # pre)). notFound bs c) \<and>
        \<not> notFound bs (candidate (last (path # candidates path (enc # pre))) e)"
        using s nf hit True by simp
      then show ?thesis by blast
    qed
  qed
qed

lemma loop_miss:
  assumes "\<forall>c \<in> set (candidates path accepted). notFound bs c"
  shows "ServeBlobContent_loop bs dgst path accepted w =
           (emits (map DriverStat (candidates path accepted)) w, False, None)"
  using loop_skip [of path accepted bs dgst "[]" w] assms
  by (simp add: notFound_iff)

lemma candidates_snoc:
  "candidates path (pre @ [enc]) =
     candidates path pre @ [candidate (last (path # candidates path pre)) enc]"
  by (simp add: candidates_append)

lemma loop_cases:
  fixes bs dgst path accepted w
  defines "res \<equiv> ServeBlobContent_loop bs dgst path accepted w"
  obtains
    (miss) "\<forall>c \<in> set (candidates path accepted). notFound bs c"
      "res = (emits (map DriverStat (candidates path accepted)) w, False, None)"
  | (stat_error) pre enc post err where
      "accepted = pre @ enc # post"
      "\<forall>c \<in> set (candidates path pre). notFound bs c"
      "driver_Stat bs (last (candidates path (pre @ [enc]))) = Inl err"
      "\<forall>p. err \<noteq> PathNotFoundError p"
      "res = (emits (map DriverStat (candidates path (pre @ [enc]))) w, False, Some err)"
  | (reader_error) pre enc post sz err where
      "accepted = pre @ enc # post"
      "\<forall>c \<in> set (candidates path pre). notFound bs c"
      "driver_Stat bs (last (candidates path (pre @ [enc]))) = Inr sz"
      "newFileReader bs (last (candidates path (pre @ [enc]))) sz = Some err"
      "res = (emits (map DriverStat (candidates path (pre @ [enc]))
                       @ [NewFileReader (last (candidates path (pre @ [enc]))) sz]) w,
              False, Some err)"
  | (found) pre enc post sz where
      "accepted = pre @ enc # post"
      "\<forall>c \<in> set (candidates path pre). notFound bs c"
      "driver_Stat bs (last (candidates path (pre @ [enc]))) = Inr sz"
      "newFileReader bs (last (candidates path (pre @ [enc]))) sz = None"
      "res = (emits (map DriverStat (candidates path (pre @ [enc]))
                       @ [NewFileReader (last (candidates path (pre @ [enc]))) sz,
                          ServeContent dgst (writable w),
                          ReaderClose (last (candidates path (pre @ [enc])))])
                (variantHeaders dgst sz enc w),
              True, None)"
proof -
  from first_hit [of path accepted bs] show thesis
  proof
    assume all: "\<forall>c \<in> set (candidates path accepted). notFound bs c"
    show thesis by (rule miss [OF all]) (simp add: res_def loop_miss [OF all])
  next
    assume "\<exists>pre enc post. accepted = pre @ enc # post \<and>
      (\<forall>c \<in> set (candidates path pre). notFound bs c) \<and>
      \<not> notFound bs (candidate (last (path # candidates path pre)) enc)"
    then obtain pre enc post where s: "accepted = pre @ enc # post"
      and nf: "\<forall>c \<in> set (candidates path pre). notFound bs c"
      and hit: "\<not> notFound bs (candidate (last (path # candidates path pre)) enc)"
      by blast
    define p0 where "p0 = last (path # candidates path pre)"
    define c where "c = candidate p0 enc"
    have lastc: "last (candidates path (pre @ [enc])) = c"
      by (simp add: candidates_snoc c_def p0_def)
    have cs: "candidates path (pre @ [enc]) = candidates path pre @ [c]"
      by (simp add: candidates_snoc c_def p0_def)
    have nf': "\<forall>c \<in> set (candidates path pre). \<exists>p. driver_Stat bs c = Inl (PathNotFoundError p)"
      using nf by (simp add: notFound_iff)
    have skip: "res = ServeBlobContent_loop bs dgst p0 (enc # post)
                        (emits (map DriverStat (candidates path pre)) w)"
      unfolding res_def s p0_def by (rule loop_skip [OF nf'])
    show thesis
    proof (cases "driver_Stat bs c")
      case (Inl err)
      with hit have npnf: "\<forall>p. err \<noteq> PathNotFoundError p"
        by (auto simp: notFound_iff c_def p0_def)
      have "res = (emits (map DriverStat (candidates path (pre @ [enc]))) w, False, Some err)"
        using loop_step_error [of bs p0 enc err] Inl npnf
        by (simp add: skip cs c_def emit_eq_emits del: ServeBlobContent_loop.simps)
      with s nf Inl npnf show thesis
        by (intro stat_error [of pre enc post err]) (simp_all add: lastc)
    next
      case (Inr sz)
      show thesis
      proof (cases "newFileReader bs c sz")
        case (Some err)
        have "res = (emits (map DriverStat (candidates path (pre @ [enc])) @ [NewFileReader c sz]) w,
                     False, Some err)"
          using loop_step_reader_error [of bs p0 enc sz err] Inr Some
          by (simp add: skip cs c_def del: ServeBlobContent_loop.simps)
        with s nf Inr Some show thesis
          by (intro reader_error [of pre enc post sz err]) (simp_all add: lastc)
      next
        case None
        have "res = (emits (map DriverStat (candidates path (pre @ [enc]))
                       @ [NewFileReader c sz, ServeContent dgst (writable w), ReaderClose c])
                       (variantHeaders dgst sz enc w), True, None)"
          using loop_step_found [of bs p0 enc sz] Inr None
          by (simp add: skip cs c_def variantHeaders_def emits_def header_Set_def
                   del: ServeBlobContent_loop.simps)
        with s nf Inr None show thesis
          by (intro found [of pre enc post sz]) (simp_all add: lastc)
      qed
    qed
  qed
qed

subsection \<open>Lookup, redirect and streaming\<close>

lemma streamBlob_opened:
  assumes "newFileReader bs path (Size desc) = None"
  shows "streamBlob bs desc path w =
           (emits [NewFileReader path (Size desc), ServeContent (Digest desc) (writable w),
                   ReaderClose path] (canonicalHeaders desc w), None)"
  using assms
  by (simp add: streamBlob_def Let_def http_ServeContent_def emit_eq_emits canonicalHeaders_def
        setIfEmpty_emits header_Set_emits)

lemma streamBlob_failed:
  assumes "newFileReader bs path (Size desc) = Some err"
  shows "streamBlob bs desc path w = (emits [NewFileReader path (Size desc)] w, Some err)"
  using assms by (simp add: streamBlob_def Let_def emit_eq_emits)

lemma ServeBlob_declined:
  assumes "negotiationDeclines bs r dgst w"
  shows "ServeBlob bs r dgst w = lookupAndDeliver bs r dgst (afterNegotiation bs r dgst w)"
  using assms
  by (auto simp: ServeBlob_def negotiationDeclines_def afterNegotiation_def split: prod.splits)

lemma ServeBlob_not_declined:
  assumes "\<not> negotiationDeclines bs r dgst w"
  shows "ServeBlob bs r dgst w =
           (fst (ServeBlobContent bs r dgst w), snd (snd (ServeBlobContent bs r dgst w)))"
  using assms
  by (auto simp: ServeBlob_def negotiationDeclines_def split: prod.splits)

lemma lookupAndDeliver_cases:
  fixes bs r dgst w
  defines "res \<equiv> lookupAndDeliver bs r dgst w"
  obtains
    (unknown) err where "statter_Stat bs dgst = Inl err"
      "res = (emits [StatterStat dgst] w, Some err)"
  | (invalid) desc err where "statter_Stat bs dgst = Inr desc" "pathFn bs (Digest desc) = Inl err"
      "res = (emits [StatterStat dgst] w, Some err)"
  | (redirected) desc path url where "statter_Stat bs dgst = Inr desc"
      "pathFn bs (Digest desc) = Inr path" "redirect bs"
      "driver_URLFor bs path (Method r) = Inr url"
      "res = (emits [StatterStat dgst, DriverURLFor path (Method r),
                     Redirect url StatusTemporaryRedirect] w, None)"
  | (url_error) desc path err where "statter_Stat bs dgst = Inr desc"
      "pathFn bs (Digest desc) = Inr path" "redirect bs"
      "driver_URLFor bs path (Method r) = Inl err" "\<forall>d. err \<noteq> ErrUnsupportedMethod d"
      "res = (emits [StatterStat dgst, DriverURLFor path (Method r)] w, Some err)"
  | (unsupported) desc path d where "statter_Stat bs dgst = Inr desc"
      "pathFn bs (Digest desc) = Inr path" "redirect bs"
      "driver_URLFor bs path (Method r) = Inl (ErrUnsupportedMethod d)"
      "res = streamBlob bs desc path (emits [StatterStat dgst, DriverURLFor path (Method r)] w)"
  | (direct) desc path where "statter_Stat bs dgst = Inr desc"
      "pathFn bs (Digest desc) = Inr path" "\<not> redirect bs"
      "res = streamBlob bs desc path (emits [StatterStat dgst] w)"
proof (cases "statter_Stat bs dgst")
  case (Inl err)
  then show thesis
    by (intro unknown [of err]) (simp_all add: res_def lookupAndDeliver_def emit_eq_emits)
next
  case desc: (Inr desc)
  show thesis
  proof (cases "pathFn bs (Digest desc)")
    case (Inl err)
    with desc show thesis
      by (intro invalid [of desc err]) (simp_all add: res_def lookupAndDeliver_def emit_eq_emits)
  next
    case path: (Inr path)
    show thesis
    proof (cases "redirect bs")
      case False
      with desc path show thesis
        by (intro direct [of desc path]) (simp_all add: res_def lookupAndDeliver_def emit_eq_emits)
    next
      case True
      show thesis
      proof (cases "driver_URLFor bs path (Method r)")
        case (Inr url)
        with desc path True show thesis
          by (intro redirected [of desc path url])
            (simp_all add: res_def lookupAndDeliver_def emit_eq_emits http_Redirect_def)
      next
        case (Inl err)
        show thesis
        proof (cases err)
          case (ErrUnsupportedMethod d)
          with desc path True Inl show thesis
            by (intro unsupported [of desc path d])
              (simp_all add: res_def lookupAndDeliver_def emit_eq_emits)
        next
          case (PathNotFoundError p)
          with desc path True Inl show thesis
            by (intro url_error [of desc path err])
              (simp_all add: res_def lookupAndDeliver_def emit_eq_emits)
        next
          case (OtherError m)
          with desc path True Inl show thesis
            by (intro url_error [of desc path err])
              (simp_all add: res_def lookupAndDeliver_def emit_eq_emits)
        qed
      qed
    qed
  qed
qed

subsection \<open>The small registry\<close>

lemma ex_pathFn_simps:
  "ex_pathFn ''sha256:aa'' = Inr ''/blobs/sha256/aa/data''"
  "ex_pathFn ''sha512:bb'' = Inr ''/blobs/sha512/bb/data''"
  "ex_pathFn ''bogus'' = Inl (OtherError ''invalid digest'')"
  by (simp_all add: ex_pathFn_def)

lemma ex_statter_simps:
  "ex_statter ''sha256:aa'' = Inr ex_desc"
  "ex_statter ''sha512:bb'' = Inr ex_desc"
  "ex_statter ''bogus'' = Inl (OtherError ''blob unknown'')"
  by (simp_all add: ex_statter_def)

lemma ex_desc_simps:
  "Digest ex_desc = ''sha256:aa''" "Size ex_desc = 5" "MediaType ex_desc = ''application/octet-stream''"
  by (simp_all add: ex_desc_def)

lemma ex_r_simps:
  "Method ex_r = ''GET''" "TransportCompression ex_r = []" "AcceptEncoding ex_r = []"
  "Method (ex_r_enc accepted) = ''GET''" "TransportCompression (ex_r_enc accepted) = ''enabled''"
  "AcceptEncoding (ex_r_enc accepted) = accepted"
  by (simp_all add: ex_r_def ex_r_enc_def)

lemma ex_w_simps: "header ex_w = Map.empty" "trace ex_w = []" "writable ex_w = True"
  by (simp_all add: ex_w_def)

lemma ex_bs_simps:
  "pathFn ex_bs = ex_pathFn" "statter_Stat ex_bs = ex_statter" "driver_Stat ex_bs = ex_driver_Stat"
  "redirect ex_bs = False" "newFileReader ex_bs p n = None"
  "driver_URLFor ex_bs p m = Inl (ErrUnsupportedMethod ''inmemory'')"
  by (simp_all add: ex_bs_def)

lemma ex_bs_variants_simps:
  "pathFn ex_bs_unsupported = ex_pathFn" "statter_Stat ex_bs_unsupported = ex_statter"
  "redirect ex_bs_unsupported = True" "newFileReader ex_bs_unsupported p n = None"
  "driver_URLFor ex_bs_unsupported p m = Inl (ErrUnsupportedMethod ''inmemory'')"
  "pathFn ex_bs_redirecting = ex_pathFn" "statter_Stat ex_bs_redirecting = ex_statter"
  "redirect ex_bs_redirecting = True"
  "driver_URLFor ex_bs_redirecting p m = Inr (''https://cdn.example'' @ p)"
  "pathFn ex_bs_failing = ex_pathFn" "statter_Stat ex_bs_failing = ex_statter"
  "redirect ex_bs_failing = True"
  "driver_URLFor ex_bs_failing p m = Inl (OtherError ''i/o timeout'')"
  by (simp_all add: ex_bs_def ex_bs_unsupported_def ex_bs_redirecting_def ex_bs_failing_def)

lemma negotiationDeclines_no_optin:
  "TransportCompression r \<noteq> ''enabled'' \<Longrightarrow> negotiationDeclines bs r dgst w"
  "TransportCompression r \<noteq> ''enabled'' \<Longrightarrow> afterNegotiation bs r dgst w = w"
  by (simp_all add: negotiationDeclines_def afterNegotiation_def)

section \<open>Claims\<close>

subsection \<open>The redirect switch\<close>

text \<open>
  Claim C4. With redirect mode enabled, once negotiation has declined and descriptor and
  path are resolved, the call to \<open>URLFor\<close> has three outcomes. On success \<open>ServeBlob\<close>
  issues a temporary redirect (status 307) to the generated URL and returns no error, with
  no reader opened. On \<open>ErrUnsupportedMethod\<close> it goes on to stream directly: the result is
  that of the streaming code, its error is the reader's own (none when the reader opens),
  and the next call after \<open>URLFor\<close> is the opening of the reader. On any other error it
  returns that error at once; the trace ends with the \<open>URLFor\<close> call.
\<close>

theorem ServeBlob_redirect_outcomes:
  assumes "redirect bs"
    and "negotiationDeclines bs r dgst w"
    and "statter_Stat bs dgst = Inr desc"
    and "pathFn bs (Digest desc) = Inr path"
    and "w1 = emits [StatterStat dgst, DriverURLFor path (Method r)] (afterNegotiation bs r dgst w)"
  shows "(\<forall>url. driver_URLFor bs path (Method r) = Inr url \<longrightarrow>
            ServeBlob bs r dgst w = (emits [Redirect url 307] w1, None))
       \<and> (\<forall>d. driver_URLFor bs path (Method r) = Inl (ErrUnsupportedMethod d) \<longrightarrow>
            ServeBlob bs r dgst w = streamBlob bs desc path w1
            \<and> snd (ServeBlob bs r dgst w) = newFileReader bs path (Size desc)
            \<and> trace (fst (ServeBlob bs r dgst w)) =
                trace w1 @ NewFileReader path (Size desc) #
                  (if newFileReader bs path (Size desc) = None
                   then [ServeContent (Digest desc) (writable w1), ReaderClose path] else []))
       \<and> (\<forall>err. driver_URLFor bs path (Method r) = Inl err \<and> (\<forall>d. err \<noteq> ErrUnsupportedMethod d) \<longrightarrow>
            ServeBlob bs r dgst w = (w1, Some err))"
proof (intro conjI allI impI)
  fix url assume "driver_URLFor bs path (Method r) = Inr url"
  with assms show "ServeBlob bs r dgst w = (emits [Redirect url 307] w1, None)"
    by (simp add: ServeBlob_declined lookupAndDeliver_def emit_eq_emits http_Redirect_def
          StatusTemporaryRedirect_def)
next
  fix d assume u: "driver_URLFor bs path (Method r) = Inl (ErrUnsupportedMethod d)"
  with assms show s: "ServeBlob bs r dgst w = streamBlob bs desc path w1"
    by (simp add: ServeBlob_declined lookupAndDeliver_def emit_eq_emits)
  show "snd (ServeBlob bs r dgst w) = newFileReader bs path (Size desc)"
    by (cases "newFileReader bs path (Size desc)")
      (simp_all add: s streamBlob_opened streamBlob_failed)
  show "trace (fst (ServeBlob bs r dgst w)) =
          trace w1 @ NewFileReader path (Size desc) #
            (if newFileReader bs path (Size desc) = None
             then [ServeContent (Digest desc) (writable w1), ReaderClose path] else [])"
    by (cases "newFileReader bs path (Size desc)")
      (simp_all add: s streamBlob_opened streamBlob_failed)
next
  fix err assume "driver_URLFor bs path (Method r) = Inl err \<and> (\<forall>d. err \<noteq> ErrUnsupportedMethod d)"
  with assms show "ServeBlob bs r dgst w = (w1, Some err)"
    by (cases err) (simp_all add: ServeBlob_declined lookupAndDeliver_def emit_eq_emits)
qed

theorem ServeBlob_redirect_outcomes_witness:
  "ServeBlob ex_bs_redirecting ex_r ''sha256:aa'' ex_w =
     (emits [StatterStat ''sha256:aa'', DriverURLFor ''/blobs/sha256/aa/data'' ''GET'',
             Redirect ''https://cdn.example/blobs/sha256/aa/data'' 307] ex_w, None)
   \<and> snd (ServeBlob ex_bs_unsupported ex_r ''sha256:aa'' ex_w) = None
   \<and> trace (fst (ServeBlob ex_bs_unsupported ex_r ''sha256:aa'' ex_w)) =
       [StatterStat ''sha256:aa'', DriverURLFor ''/blobs/sha256/aa/data'' ''GET'',
        NewFileReader ''/blobs/sha256/aa/data'' 5, ServeContent ''sha256:aa'' True,
        ReaderClose ''/blobs/sha256/aa/data'']
   \<and> ServeBlob ex_bs_failing ex_r ''sha256:aa'' ex_w =
       (emits [StatterStat ''sha256:aa'', DriverURLFor ''/blobs/sha256/aa/data'' ''GET''] ex_w,
        Some (OtherError ''i/o timeout''))"
proof -
  note ex = ex_bs_variants_simps ex_pathFn_simps ex_statter_simps ex_desc_simps ex_r_simps
    ex_w_simps negotiationDeclines_no_optin
  have a: "ServeBlob ex_bs_redirecting ex_r ''sha256:aa'' ex_w =
     (emits [StatterStat ''sha256:aa'', DriverURLFor ''/blobs/sha256/aa/data'' ''GET'',
             Redirect ''https://cdn.example/blobs/sha256/aa/data'' 307] ex_w, None)"
    using ServeBlob_redirect_outcomes [of ex_bs_redirecting ex_r "''sha256:aa''" ex_w ex_desc
        "''/blobs/sha256/aa/data''", OF _ _ _ _ refl]
    by (simp add: ex)
  have b: "snd (ServeBlob ex_bs_unsupported ex_r ''sha256:aa'' ex_w) = None
     \<and> trace (fst (ServeBlob ex_bs_unsupported ex_r ''sha256:aa'' ex_w)) =
       [StatterStat ''sha256:aa'', DriverURLFor ''/blobs/sha256/aa/data'' ''GET'',
        NewFileReader ''/blobs/sha256/aa/data'' 5, ServeContent ''sha256:aa'' True,
        ReaderClose ''/blobs/sha256/aa/data'']"
    using ServeBlob_redirect_outcomes [of ex_bs_unsupported ex_r "''sha256:aa''" ex_w ex_desc
        "''/blobs/sha256/aa/data''", OF _ _ _ _ refl]
    by (simp add: ex streamBlob_opened)
  have c: "ServeBlob ex_bs_failing ex_r ''sha256:aa'' ex_w =
       (emits [StatterStat ''sha256:aa'', DriverURLFor ''/blobs/sha256/aa/data'' ''GET''] ex_w,
        Some (OtherError ''i/o timeout''))"
    using ServeBlob_redirect_outcomes [of ex_bs_failing ex_r "''sha256:aa''" ex_w ex_desc
        "''/blobs/sha256/aa/data''", OF _ _ _ _ refl]
    by (simp add: ex)
  from a b c show ?thesis by blast
qed

subsection \<open>Empty preference list\<close>

text \<open>
  Claim C6, as amended. When the parsed encoding-preference list is empty,
  \<open>ServeBlobContent\<close> reports no match and leaves the response state as it was: no header
  written, no call made. It returns no error exactly when the path function accepts the
  digest; when the path function rejects the digest, its error is returned. For an accepted
  digest \<open>ServeBlob\<close> is then the canonical delivery from the unchanged state.
\<close>

theorem ServeBlobContent_empty_preferences:
  assumes "AcceptEncoding r = []"
  shows "ServeBlobContent bs r dgst w =
           (w, False, case pathFn bs dgst of Inl err \<Rightarrow> Some err | Inr path \<Rightarrow> None)
         \<and> (\<forall>path. pathFn bs dgst = Inr path \<longrightarrow>
               ServeBlob bs r dgst w = lookupAndDeliver bs r dgst w)"
  using assms by (auto simp: ServeBlobContent_def ServeBlob_def split: sum.splits)

theorem ServeBlobContent_empty_preferences_witness:
  "AcceptEncoding (ex_r_enc []) = [] \<and> pathFn ex_bs ''sha256:aa'' = Inr ''/blobs/sha256/aa/data''
   \<and> ServeBlobContent ex_bs (ex_r_enc []) ''sha256:aa'' ex_w = (ex_w, False, None)
   \<and> ServeBlob ex_bs (ex_r_enc []) ''sha256:aa'' ex_w =
       lookupAndDeliver ex_bs (ex_r_enc []) ''sha256:aa'' ex_w"
proof -
  have a: "AcceptEncoding (ex_r_enc []) = []" by (simp add: ex_r_simps)
  have p: "pathFn ex_bs ''sha256:aa'' = Inr ''/blobs/sha256/aa/data''"
    by (simp add: ex_bs_simps ex_pathFn_simps)
  from ServeBlobContent_empty_preferences [OF a, of ex_bs "''sha256:aa''" ex_w] a p
  show ?thesis by simp
qed

text \<open>The claim as stated, for every digest, fails at a digest the path function rejects:
  an error is returned.\<close>

theorem ServeBlobContent_empty_preferences_counterexample:
  "AcceptEncoding (ex_r_enc []) = []
   \<and> snd (ServeBlobContent ex_bs (ex_r_enc []) ''bogus'' ex_w) =
       (False, Some (OtherError ''invalid digest''))"
  by (simp add: ServeBlobContent_def ex_r_simps ex_bs_simps ex_pathFn_simps)

subsection \<open>Rejected digests\<close>

text \<open>
  Claim C8, as amended. When the path function rejects the digest, \<open>ServeBlobContent\<close>, and
  \<open>ServeBlob\<close> when the transport-compression opt-in is present, return that error with the
  response state unchanged: neither the descriptor source nor the storage driver is called.
  Without the opt-in \<open>ServeBlob\<close> calls the descriptor source with the digest first; the
  path function is applied to the digest of the descriptor, and when the lookup fails or the
  path function rejects the descriptor's digest the error is returned with that lookup as
  the only call, so the storage driver is not reached.
\<close>

theorem invalid_digest_before_io:
  "(pathFn bs dgst = Inl err \<longrightarrow> ServeBlobContent bs r dgst w = (w, False, Some err))
   \<and> (pathFn bs dgst = Inl err \<and> TransportCompression r = ''enabled'' \<longrightarrow>
        ServeBlob bs r dgst w = (w, Some err))
   \<and> (TransportCompression r \<noteq> ''enabled'' \<and> statter_Stat bs dgst = Inl err \<longrightarrow>
        ServeBlob bs r dgst w = (emits [StatterStat dgst] w, Some err))
   \<and> (TransportCompression r \<noteq> ''enabled'' \<and> statter_Stat bs dgst = Inr desc \<and>
      pathFn bs (Digest desc) = Inl err \<longrightarrow>
        ServeBlob bs r dgst w = (emits [StatterStat dgst] w, Some err))"
  by (simp add: ServeBlobContent_def ServeBlob_def lookupAndDeliver_def emit_eq_emits)

theorem invalid_digest_before_io_witness:
  "pathFn ex_bs ''bogus'' = Inl (OtherError ''invalid digest'')
   \<and> ServeBlobContent ex_bs (ex_r_enc [ex_enc ''gzip'' 1]) ''bogus'' ex_w =
       (ex_w, False, Some (OtherError ''invalid digest''))
   \<and> ServeBlob ex_bs (ex_r_enc [ex_enc ''gzip'' 1]) ''bogus'' ex_w =
       (ex_w, Some (OtherError ''invalid digest''))
   \<and> ServeBlob ex_bs ex_r ''bogus'' ex_w =
       (emits [StatterStat ''bogus''] ex_w, Some (OtherError ''blob unknown''))
   \<and> ServeBlob (ex_bs\<lparr>pathFn := (\<lambda>d. Inl (OtherError ''invalid digest''))\<rparr>) ex_r ''sha256:aa'' ex_w =
       (emits [StatterStat ''sha256:aa''] ex_w, Some (OtherError ''invalid digest''))"
proof -
  have p: "pathFn ex_bs ''bogus'' = Inl (OtherError ''invalid digest'')"
    by (simp add: ex_bs_simps ex_pathFn_simps)
  have a: "ServeBlobContent ex_bs (ex_r_enc [ex_enc ''gzip'' 1]) ''bogus'' ex_w =
       (ex_w, False, Some (OtherError ''invalid digest''))
     \<and> ServeBlob ex_bs (ex_r_enc [ex_enc ''gzip'' 1]) ''bogus'' ex_w =
       (ex_w, Some (OtherError ''invalid digest''))"
    using invalid_digest_before_io [of ex_bs "''bogus''" "OtherError ''invalid digest''"
        "ex_r_enc [ex_enc ''gzip'' 1]" ex_w] p
    by (simp add: ex_r_simps)
  have b: "ServeBlob ex_bs ex_r ''bogus'' ex_w =
       (emits [StatterStat ''bogus''] ex_w, Some (OtherError ''blob unknown''))"
    using invalid_digest_before_io [of ex_bs "''bogus''" "OtherError ''blob unknown''" ex_r ex_w]
    by (simp add: ex_r_simps ex_bs_simps ex_statter_simps)
  have c: "ServeBlob (ex_bs\<lparr>pathFn := (\<lambda>d. Inl (OtherError ''invalid digest''))\<rparr>) ex_r ''sha256:aa'' ex_w =
       (emits [StatterStat ''sha256:aa''] ex_w, Some (OtherError ''invalid digest''))"
    using invalid_digest_before_io [of "ex_bs\<lparr>pathFn := (\<lambda>d. Inl (OtherError ''invalid digest''))\<rparr>"
        "''sha256:aa''" "OtherError ''invalid digest''" ex_r ex_w ex_desc]
    by (simp add: ex_r_simps ex_bs_simps ex_statter_simps)
  from p a b c show ?thesis by blast
qed

text \<open>The claim as stated fails on the entry without opt-in: for a digest the path function
  rejects, the descriptor source is called.\<close>

theorem invalid_digest_before_io_counterexample:
  "pathFn ex_bs ''bogus'' = Inl (OtherError ''invalid digest'')
   \<and> trace (fst (ServeBlob ex_bs ex_r ''bogus'' ex_w)) = [StatterStat ''bogus'']"
  by (simp add: ServeBlob_def lookupAndDeliver_def ex_r_simps ex_bs_simps ex_pathFn_simps
        ex_statter_simps ex_w_simps)

end
